theory Spec2Isabelle
  imports Main "HOL-Library.Word"
begin

unbundle bit_operations_syntax

section \<open>The Acurite 00592TX pulse decoder (A00592TX.cpp)\<close>

text \<open>
  The embedding follows \<^verbatim>\<open>src/A00592TX.cpp\<close>. The header \<^verbatim>\<open>A00592TX.h\<close> with the
  macros and the two struct declarations is not part of the sources at hand. Integer
  widths are those of the AVR Arduino that the source's comments name (pin 3 is INT1,
  the LED is on pin 13): \<^verbatim>\<open>int\<close> and \<^verbatim>\<open>unsigned int\<close> have 16 bits,
  \<^verbatim>\<open>long\<close> and \<^verbatim>\<open>unsigned long\<close> have 32 bits.
\<close>

type_synonym u8 = "8 word"
type_synonym u16 = "16 word"
type_synonym u32 = "32 word"

subsection \<open>Constants of the missing header\<close>

text \<open>
  Modelled from the spec: the sync pulse is nominally 600 us high and 600 us low
  (section 4.2); the macros \<^verbatim>\<open>SYNC_HIGH\<close> and \<^verbatim>\<open>SYNC_LOW\<close> are missing.
\<close>

definition SYNC_HIGH :: nat where "SYNC_HIGH = 600"
definition SYNC_LOW :: nat where "SYNC_LOW = 600"

text \<open>
  Modelled from the spec: a 1 bit is 400 us high then 200 us low, a 0 bit is 200 us high
  then 400 us low (section 4.4, and lines 45-46 of the source's header comment); the
  macros \<^verbatim>\<open>BIT1_HIGH\<close>, \<^verbatim>\<open>BIT1_LOW\<close>, \<^verbatim>\<open>BIT0_HIGH\<close>, \<^verbatim>\<open>BIT0_LOW\<close> are missing.
\<close>

definition BIT1_HIGH :: nat where "BIT1_HIGH = 400"
definition BIT1_LOW :: nat where "BIT1_LOW = 200"
definition BIT0_HIGH :: nat where "BIT0_HIGH = 200"
definition BIT0_LOW :: nat where "BIT0_LOW = 400"

text \<open>
  Modelled from the spec: the frame geometry is 8 sync edges, 7 bytes, 56 bits and
  112 data edges (section 6, and lines 48-66 of the source's header comment).
\<close>

definition SYNCPULSEEDGES :: nat where "SYNCPULSEEDGES = 8"
definition DATABYTESCNT :: nat where "DATABYTESCNT = 7"
definition DATABITSCNT :: nat where "DATABITSCNT = 56"
definition DATABITSEDGES :: nat where "DATABITSEDGES = 112"

text \<open>
  Modelled from the spec: the battery marker is \<open>(byte2 AND 0xC0) = 0x80\<close> (section 4.6);
  the commented-out lines 134-137 of the source give the same mask and values, and
  \<open>0x80\<close> for the battery-low bit of the slot's status.
\<close>

definition SENSOR_BATTERY_LOW_MASK :: u8 where "SENSOR_BATTERY_LOW_MASK = 0xC0"
definition SENSOR_BATTERY_LOW_VAL :: u8 where "SENSOR_BATTERY_LOW_VAL = 0x80"
definition SENSOR_BATTERY_LOW :: u8 where "SENSOR_BATTERY_LOW = 0x80"

text \<open>
  The number of sensors: line 117 of the source (commented out there, the declaration
  having moved to the header) and the six initialisers of \<^verbatim>\<open>probeIdArray\<close> at line 129.
\<close>

definition numSensors :: nat where "numSensors = 6"

text \<open>
  The macros whose values neither the source nor the spec gives, and the table
  \<^verbatim>\<open>probeIdArray\<close>, which the source fills from the missing macros
  \<^verbatim>\<open>SENSORID01\<close> .. \<^verbatim>\<open>SENSORID06\<close>, are parameters of the model. A C array of fixed
  size is a function from the index; only indices below the array's size are ever used.
  \<^verbatim>\<open>RING_BUFFER_SIZE\<close> is at least 120 (lines 65-66 of the source).
\<close>

record config =
  RING_BUFFER_SIZE :: nat
  PULSE_LONG :: nat
  PULSE_SHORT :: nat
  SENSOR_STALE_DATA_TIMEOUT :: u32
  SENSOR_DATA_FRESH_MASK :: u8
  SENSOR_DATA_FRESH_VAL :: u8
  probeIdArray :: "nat \<Rightarrow> u16"

subsection \<open>convertTimingToBit (lines 282-293)\<close>

text \<open>
  The two durations are \<^verbatim>\<open>unsigned int\<close>; the result is 1, 0, or -1 for a pair that
  matches neither template. All eight comparisons of the source are strict.
\<close>

definition convertTimingToBit :: "u16 \<Rightarrow> u16 \<Rightarrow> int" where
  "convertTimingToBit t0 t1 =
     (if unat t0 > BIT1_HIGH - 100 \<and> unat t0 < BIT1_HIGH + 100 \<and>
         unat t1 > BIT1_LOW - 100 \<and> unat t1 < BIT1_LOW + 100
      then 1
      else if unat t0 > BIT0_HIGH - 100 \<and> unat t0 < BIT0_HIGH + 100 \<and>
              unat t1 > BIT0_LOW - 100 \<and> unat t1 < BIT0_LOW + 100
      then 0
      else - 1)"

subsection \<open>The two structs and the module's variables\<close>

text \<open>
  Modelled from the spec: the declaration of \<^verbatim>\<open>struct acurite_00592TX\<close> is missing. Its
  fields are the seven bytes of the frame in order (lines 72-90 of the source's header
  comment, section 4.6 of the spec); the source names six of them, the fourth byte is
  reserved.
\<close>

record acurite_00592TX =
  id_high :: u8
  id_low :: u8
  status :: u8
  rsvd :: u8
  temperature_high :: u8
  temperature_low :: u8
  crc :: u8

text \<open>
  Modelled from the spec: the declaration of \<^verbatim>\<open>struct sensorTemperatureData\<close> is
  missing. The source writes four fields: \<^verbatim>\<open>id\<close> (here \<open>slot_id\<close>), \<^verbatim>\<open>status\<close> (here
  \<open>slot_status\<close>), \<^verbatim>\<open>temperature\<close> and \<^verbatim>\<open>timestamp\<close>. The status holds flag bits under
  8-bit masks; the timestamp is assigned \<^verbatim>\<open>millis() / 1000\<close>, an \<^verbatim>\<open>unsigned long\<close>.
  The temperature is a signed integer (section 3 of the spec: \<open>temperatureRaw\<close>, a signed
  integer in native sensor units). The field \<open>temperature\<close> keeps the 16 bits that line 450
  assigns, and \<open>temperatureRaw\<close> below is the signed integer that a 16-bit field holding
  those bits stands for.
\<close>

record sensorTemperatureData =
  slot_id :: u8
  slot_status :: u8
  temperature :: u16
  timestamp :: u32


text \<open>
  The file-scope variables (lines 96-131), the statics of the handler (lines 205-209)
  and whether the edge interrupt is attached. \<^verbatim>\<open>changeCount\<close> is an \<^verbatim>\<open>unsigned int\<close>
  that is incremented without bound; the indices stay below \<^verbatim>\<open>RING_BUFFER_SIZE\<close> + 112.
\<close>

record state =
  pulseDurations :: "nat \<Rightarrow> u32"
  syncIndex :: nat
  dataIndex :: nat
  syncFound :: bool
  received :: bool
  changeCount :: u16
  sensorData :: "nat \<Rightarrow> sensorTemperatureData"
  CRC :: u8
  duration :: u32
  lastTime :: u32
  ringIndex :: nat
  bitState :: nat
  attached :: bool

subsection \<open>isSync (lines 177-194)\<close>

function isSync_loop :: "nat \<Rightarrow> (nat \<Rightarrow> u32) \<Rightarrow> nat \<Rightarrow> nat \<Rightarrow> bool" where
  "isSync_loop N ring idx i =
     (if i < SYNCPULSEEDGES then
        (let t1 = ring ((idx + N - i) mod N);
             t0 = ring ((idx + N - i - 1) mod N)
         in if unat t0 < SYNC_HIGH - 100 \<or> unat t0 > SYNC_HIGH + 100 \<or>
               unat t1 < SYNC_LOW - 100 \<or> unat t1 > SYNC_LOW + 100
            then False
            else isSync_loop N ring idx (i + 2))
      else True)"
  by pat_completeness auto
termination
  by (relation "measure (\<lambda>(N, ring, idx, i). SYNCPULSEEDGES - i)") auto

definition isSync :: "config \<Rightarrow> (nat \<Rightarrow> u32) \<Rightarrow> nat \<Rightarrow> bool" where
  "isSync cfg ring idx = isSync_loop (RING_BUFFER_SIZE cfg) ring idx 0"

subsection \<open>handler_rf433 (lines 203-273)\<close>

text \<open>
  One execution of the edge interrupt handler. \<open>pin\<close> is what \<^verbatim>\<open>digitalRead\<close> returns
  and \<open>micros\<close> what \<^verbatim>\<open>micros()\<close> returns.
\<close>

text \<open>
  Line 230. The duration is an \<^verbatim>\<open>unsigned long\<close> and the two bounds are \<^verbatim>\<open>int\<close>
  expressions that are converted to \<^verbatim>\<open>unsigned long\<close> for the comparison: when
  \<^verbatim>\<open>PULSE_SHORT\<close> is below 100 the negative difference becomes \<open>2^32 - (100 - PULSE_SHORT)\<close>.
\<close>

definition pulse_out_of_bounds :: "config \<Rightarrow> u32 \<Rightarrow> bool" where
  "pulse_out_of_bounds cfg d =
     (unat d > PULSE_LONG cfg + 100 \<or>
      unat d < (if PULSE_SHORT cfg < 100 then 2 ^ 32 - (100 - PULSE_SHORT cfg)
                else PULSE_SHORT cfg - 100))"

definition handler_rf433 :: "config \<Rightarrow> nat \<Rightarrow> u32 \<Rightarrow> state \<Rightarrow> state" where
  "handler_rf433 cfg pin micros s =
     (let s0 = s\<lparr>bitState := pin\<rparr> in
      if received s0 then s0
      else
        let s1 = s0\<lparr>duration := micros - lastTime s0, lastTime := micros\<rparr>;
            s2 = (if pulse_out_of_bounds cfg (duration s1)
                  then s1\<lparr>received := False, syncFound := False, changeCount := 0\<rparr>
                  else s1);
            ri = (ringIndex s2 + 1) mod RING_BUFFER_SIZE cfg;
            s3 = s2\<lparr>ringIndex := ri,
                     pulseDurations := (pulseDurations s2)(ri := duration s2),
                     changeCount := changeCount s2 + 1\<rparr>;
            s4 = (if isSync cfg (pulseDurations s3) (ringIndex s3)
                  then s3\<lparr>syncFound := True, changeCount := 0,
                           syncIndex := ringIndex s3,
                           dataIndex := (ringIndex s3 + 1) mod RING_BUFFER_SIZE cfg\<rparr>
                  else s3)
        in if syncFound s4 then
             (if unat (changeCount s4) < DATABITSEDGES then s4\<lparr>received := False\<rparr>
              else if unat (changeCount s4) > DATABITSEDGES
              then s4\<lparr>received := False, syncFound := False\<rparr>
              else s4\<lparr>received := True, attached := False\<rparr>)
           else s4)"

subsection \<open>ageStaleData (lines 299-310)\<close>

text \<open>\<open>now\<close> is \<^verbatim>\<open>millis() / 1000\<close>, taken not to change during one sweep.\<close>

definition ageStaleData ::
  "config \<Rightarrow> u32 \<Rightarrow> (nat \<Rightarrow> sensorTemperatureData) \<Rightarrow> (nat \<Rightarrow> sensorTemperatureData)" where
  "ageStaleData cfg now sd =
     fold (\<lambda>i sd.
             if timestamp (sd i) + SENSOR_STALE_DATA_TIMEOUT cfg < now
             then sd(i := (sd i)\<lparr>slot_status :=
                            slot_status (sd i) AND NOT (SENSOR_DATA_FRESH_MASK cfg)\<rparr>)
             else sd)
          [0..<numSensors] sd"

subsection \<open>loop592 (lines 341-489)\<close>

text \<open>
  Lines 356-377: the 56 bit pairs are read from the ring buffer, starting after the sync
  index. A pair that matches no template ends the loop with the early return of line 369
  (\<open>None\<close>). The 32-bit durations are passed to the 16-bit parameters of
  \<open>convertTimingToBit\<close>.
\<close>

function decode_loop ::
  "nat \<Rightarrow> (nat \<Rightarrow> u32) \<Rightarrow> nat \<Rightarrow> nat \<Rightarrow> u8 list \<Rightarrow> u8 list option" where
  "decode_loop N ring i ringIdx dataBytes =
     (if i < DATABITSCNT then
        (let bit = convertTimingToBit (ucast (ring (ringIdx mod N)))
                                      (ucast (ring ((ringIdx + 1) mod N)))
         in if bit < 0 then None
            else decode_loop N ring (i + 1) (ringIdx + 2)
                   (dataBytes[i div 8 :=
                      dataBytes ! (i div 8) OR push_bit (7 - i mod 8) (word_of_int bit)]))
      else Some dataBytes)"
  by pat_completeness auto
termination
  by (relation "measure (\<lambda>(N, ring, i, ringIdx, dataBytes). DATABITSCNT - i)") auto

definition decode_bits :: "config \<Rightarrow> (nat \<Rightarrow> u32) \<Rightarrow> nat \<Rightarrow> u8 list option" where
  "decode_bits cfg ring syncIdx =
     decode_loop (RING_BUFFER_SIZE cfg) ring 0 ((syncIdx + 1) mod RING_BUFFER_SIZE cfg)
       (replicate DATABYTESCNT 0)"

text \<open>Lines 379-384: the running sum of the first six bytes, in a \<^verbatim>\<open>uint8_t\<close>.\<close>

definition checksum :: "u8 list \<Rightarrow> u8" where
  "checksum dataBytes = fold (\<lambda>i c. c + dataBytes ! i) [0..<DATABYTESCNT - 1] 0"

text \<open>Line 387: the struct laid over the seven bytes.\<close>

definition overlay :: "u8 list \<Rightarrow> acurite_00592TX" where
  "overlay dataBytes =
     \<lparr>id_high = dataBytes ! 0, id_low = dataBytes ! 1, status = dataBytes ! 2,
      rsvd = dataBytes ! 3, temperature_high = dataBytes ! 4,
      temperature_low = dataBytes ! 5, crc = dataBytes ! 6\<rparr>"

text \<open>Line 402: the address that is looked up, a \<^verbatim>\<open>uint16_t\<close>.\<close>

definition hexID :: "acurite_00592TX \<Rightarrow> u16" where
  "hexID f = ucast (id_high f) * 256 + ucast (id_low f)"

text \<open>
  Lines 403-412: the search of the table. The loop has no \<^verbatim>\<open>break\<close>; the preset
  \<^verbatim>\<open>_numSensors+1\<close> stays when no entry matches.
\<close>

definition find_id :: "(nat \<Rightarrow> u16) \<Rightarrow> u16 \<Rightarrow> nat" where
  "find_id tbl h = fold (\<lambda>i idx. if h = tbl i then i else idx) [0..<numSensors] (numSensors + 1)"

text \<open>
  Lines 447-450: the temperature. With a 16-bit \<^verbatim>\<open>int\<close> the subtraction
  \<^verbatim>\<open>temperature-1024\<close> is done in \<^verbatim>\<open>unsigned int\<close> and wraps; adding 0.5 and
  casting back to \<^verbatim>\<open>uint16_t\<close> truncates to the same integer.
\<close>

definition extract_temperature :: "acurite_00592TX \<Rightarrow> u16" where
  "extract_temperature f =
     (let t = push_bit 7 (ucast (temperature_high f AND 0x7F));
          t' = t + ucast (temperature_low f AND 0x7F)
      in t' - 1024)"

text \<open>Lines 425-453: the update of the matched slot. \<open>millis\<close> is what \<^verbatim>\<open>millis()\<close> returns.\<close>

definition merge_frame ::
  "config \<Rightarrow> u32 \<Rightarrow> acurite_00592TX \<Rightarrow> nat \<Rightarrow>
   (nat \<Rightarrow> sensorTemperatureData) \<Rightarrow> (nat \<Rightarrow> sensorTemperatureData)" where
  "merge_frame cfg millis f idx sd =
     (let r1 = (sd idx)\<lparr>slot_id := of_nat idx + 1\<rparr>;
          r2 = (if status f AND SENSOR_BATTERY_LOW_MASK = SENSOR_BATTERY_LOW_VAL
                then r1\<lparr>slot_status := slot_status r1 OR SENSOR_BATTERY_LOW\<rparr>
                else r1\<lparr>slot_status := slot_status r1 AND NOT SENSOR_BATTERY_LOW\<rparr>);
          r3 = r2\<lparr>slot_status := slot_status r2 OR
                     (SENSOR_DATA_FRESH_VAL cfg AND SENSOR_DATA_FRESH_MASK cfg)\<rparr>;
          r4 = r3\<lparr>temperature := extract_temperature f\<rparr>;
          r5 = r4\<lparr>timestamp := millis div 1000\<rparr>
      in sd(idx := r5))"

text \<open>
  The three diagnostics that the function prints before an early return, and the
  re-arming that every path through the \<^verbatim>\<open>if\<close> ends with: both flags cleared and the
  interrupt attached again.
\<close>

datatype diag = BitTimingError | CRCError | SensorIdError

definition rearm :: "state \<Rightarrow> state" where
  "rearm s = s\<lparr>received := False, syncFound := False, attached := True\<rparr>"

text \<open>
  One call of \<^verbatim>\<open>loop592\<close>; \<open>millis\<close> is what \<^verbatim>\<open>millis()\<close> returns, taken not to change
  during the call. The early returns of lines 369, 398 and 422 leave before
  \<^verbatim>\<open>ageStaleData\<close> is called.
\<close>

definition loop592 :: "config \<Rightarrow> u32 \<Rightarrow> state \<Rightarrow> diag option \<times> state" where
  "loop592 cfg millis s =
     (if received s then
        (case decode_bits cfg (pulseDurations s) (syncIndex s) of
           None \<Rightarrow> (Some BitTimingError, rearm s)
         | Some dataBytes \<Rightarrow>
             (let s1 = s\<lparr>CRC := checksum dataBytes\<rparr>;
                  acurite_data = overlay dataBytes
              in if CRC s1 \<noteq> crc acurite_data then (Some CRCError, rearm s1)
                 else
                   (let idx = find_id (probeIdArray cfg) (hexID acurite_data)
                    in if idx > numSensors then (Some SensorIdError, rearm s1)
                       else
                         (let s2 = s1\<lparr>sensorData :=
                                        merge_frame cfg millis acurite_data idx (sensorData s1)\<rparr>;
                              s3 = rearm s2
                          in (None, s3\<lparr>sensorData :=
                                         ageStaleData cfg (millis div 1000) (sensorData s3)\<rparr>)))))
      else (None, s\<lparr>sensorData := ageStaleData cfg (millis div 1000) (sensorData s)\<rparr>))"

subsection \<open>setup592 (lines 317-330) and the variables' initial values\<close>

definition power_on :: state where
  "power_on =
     \<lparr>pulseDurations = (\<lambda>_. 0), syncIndex = 0, dataIndex = 0, syncFound = False,
      received = False, changeCount = 0,
      sensorData = (\<lambda>_. \<lparr>slot_id = 0, slot_status = 0, temperature = 0, timestamp = 0\<rparr>),
      CRC = 0, duration = 0, lastTime = 0, ringIndex = 0, bitState = 0, attached = False\<rparr>"

definition setup592 :: "state \<Rightarrow> state" where
  "setup592 s =
     s\<lparr>attached := True,
       sensorData := (\<lambda>i. if i < numSensors
                           then \<lparr>slot_id = of_nat i + 1, slot_status = 0, temperature = 0,
                                 timestamp = 0\<rparr>
                           else sensorData s i)\<rparr>"

subsection \<open>Concrete inputs\<close>

text \<open>
  The edge durations of one transmission as the source's header comment describes them
  (lines 38-49): the ring holds 600 us sync edges up to index 0, and from index 1 the
  112 data edges of the seven bytes, most significant bit first, a 1 bit as 400 us high
  and 200 us low, a 0 bit as 200 us high and 400 us low.
\<close>

definition pulse_train :: "u8 list \<Rightarrow> nat \<Rightarrow> u32" where
  "pulse_train bs k =
     (if 1 \<le> k \<and> k \<le> 112 then
        (let j = k - 1; b = j div 2; one = bit (bs ! (b div 8)) (7 - b mod 8)
         in if even j then (if one then 400 else 200) else (if one then 200 else 400))
      else 600)"

text \<open>
  A configuration with a ring of 152 entries, data pulses of 400 and 200 us, a stale
  timeout of 60 s and the fresh flag in bit 6 of the status; the table is left open.
\<close>

definition example_config :: "(nat \<Rightarrow> u16) \<Rightarrow> config" where
  "example_config tbl =
     \<lparr>RING_BUFFER_SIZE = 152, PULSE_LONG = 400, PULSE_SHORT = 200,
      SENSOR_STALE_DATA_TIMEOUT = 60, SENSOR_DATA_FRESH_MASK = 0x40,
      SENSOR_DATA_FRESH_VAL = 0x40, probeIdArray = tbl\<rparr>"

text \<open>
  A state with a pending frame: the sync train has ended at index 0, the 112 data edges
  of the bytes \<open>bs\<close> have followed, and the handler has set the received flag and detached
  the interrupt. The handler's time stamp and pin state, which \<^verbatim>\<open>loop592\<close> does not
  read, are left at their initial values.
\<close>

definition frame_ready :: "u8 list \<Rightarrow> state" where
  "frame_ready bs =
     (setup592 power_on)\<lparr>pulseDurations := pulse_train bs, syncIndex := 0, dataIndex := 1,
       syncFound := True, received := True, changeCount := 112, ringIndex := 112,
       duration := pulse_train bs 112, attached := False\<rparr>"

text \<open>
  The frame of the spec's end-to-end test (channel bits 11, temperature bytes 0x08 and
  0x10), the same frame with channel bits 10, a frame with the temperature bytes 0x87
  and 0x4E (raw value 974, with the parity bit of the high byte set), and the first
  frame with a wrong last byte. The last byte of the other three is the sum of the
  first six modulo 256.
\<close>

definition example_bytes :: "u8 list" where
  "example_bytes = [0xC3, 0x4A, 0x44, 0x90, 0x08, 0x10, 0xF9]"

definition channel_b_bytes :: "u8 list" where
  "channel_b_bytes = [0x83, 0x4A, 0x44, 0x90, 0x08, 0x10, 0xB9]"

definition frost_bytes :: "u8 list" where
  "frost_bytes = [0xC3, 0x4A, 0x44, 0x90, 0x87, 0x4E, 0xB6]"

definition damaged_bytes :: "u8 list" where
  "damaged_bytes = [0xC3, 0x4A, 0x44, 0x90, 0x08, 0x10, 0x00]"

text \<open>Tables: one entry per slot; the entries not named hold 0xFFFF.\<close>

definition table_of :: "u16 list \<Rightarrow> nat \<Rightarrow> u16" where
  "table_of xs i = (if i < length xs then xs ! i else 0xFFFF)"

text \<open>Slots of which the first holds a fresh reading taken at second 100.\<close>

definition fresh_slots :: "nat \<Rightarrow> sensorTemperatureData" where
  "fresh_slots =
     (sensorData (setup592 power_on))
       (0 := \<lparr>slot_id = 1, slot_status = 0x40, temperature = 16, timestamp = 100\<rparr>)"

lemmas timing_defs =
  SYNC_HIGH_def SYNC_LOW_def BIT1_HIGH_def BIT1_LOW_def BIT0_HIGH_def BIT0_LOW_def

lemmas geometry_defs =
  SYNCPULSEEDGES_def DATABYTESCNT_def DATABITSCNT_def DATABITSEDGES_def

section \<open>The bit decoder\<close>

text \<open>
  Claim C4, as amended. The decoder returns 1 exactly when the high duration lies strictly
  between 300 and 500 us and the low duration strictly between 100 and 300 us; it returns
  0 exactly when the high duration lies strictly between 100 and 300 us and the low
  duration strictly between 300 and 500 us; in every other case it returns -1. The
  intervals are open: a duration at an endpoint matches no template.
\<close>

theorem convertTimingToBit_open_intervals:
  "(convertTimingToBit t0 t1 = 1) =
     (300 < unat t0 \<and> unat t0 < 500 \<and> 100 < unat t1 \<and> unat t1 < 300) \<and>
   (convertTimingToBit t0 t1 = 0) =
     (100 < unat t0 \<and> unat t0 < 300 \<and> 300 < unat t1 \<and> unat t1 < 500) \<and>
   (convertTimingToBit t0 t1 = - 1) =
     (\<not> (300 < unat t0 \<and> unat t0 < 500 \<and> 100 < unat t1 \<and> unat t1 < 300) \<and>
      \<not> (100 < unat t0 \<and> unat t0 < 300 \<and> 300 < unat t1 \<and> unat t1 < 500))"
  by (auto simp: convertTimingToBit_def timing_defs)

text \<open>
  Claim C4 as stated fails at the endpoints: a high duration of exactly 300 us with a low
  duration of 200 us lies in the closed intervals of the 1 template, and the decoder
  returns -1; so does a high duration of exactly 500 us.
\<close>

theorem convertTimingToBit_endpoint_rejected:
  "convertTimingToBit 300 200 = - 1 \<and> convertTimingToBit 500 200 = - 1 \<and>
   convertTimingToBit 200 300 = - 1"
  by (simp add: convertTimingToBit_def timing_defs)

section \<open>Auxiliary facts\<close>

subsection \<open>The sweep and the table search\<close>

lemma fold_upt_pointwise:
  "fold (\<lambda>i f. if c (f i) then f(i := u (f i)) else f) [0..<n] f j =
     (if j < n \<and> c (f j) then u (f j) else f j)"
proof (induction n arbitrary: j)
  case 0
  show ?case by simp
next
  case (Suc n)
  show ?case by (simp add: Suc.IH)
qed

lemma ageStaleData_apply:
  "ageStaleData cfg now sd j =
     (if j < numSensors \<and> timestamp (sd j) + SENSOR_STALE_DATA_TIMEOUT cfg < now
      then (sd j)\<lparr>slot_status := slot_status (sd j) AND NOT (SENSOR_DATA_FRESH_MASK cfg)\<rparr>
      else sd j)"
  unfolding ageStaleData_def
  by (rule fold_upt_pointwise
      [where c = "\<lambda>r. timestamp r + SENSOR_STALE_DATA_TIMEOUT cfg < now"
         and u = "\<lambda>r. r\<lparr>slot_status := slot_status r AND NOT (SENSOR_DATA_FRESH_MASK cfg)\<rparr>"])

lemma no_wrap_succ:
  fixes T S :: u32
  assumes "unat T + unat S + 1 < 2 ^ 32"
  shows "T + S < T + S + 1"
  using assms by (simp add: word_less_nat_alt unat_word_ariths)

lemma no_wrap_pred:
  fixes T S :: u32
  assumes "unat T + unat S < 2 ^ 32" "1 \<le> unat T + unat S"
  shows "\<not> T + S < T + S - 1"
  using assms 
  by (simp add: word_less_nat_alt unat_word_ariths unat_sub_if')

lemma and_not_idem: "(x AND NOT m) AND NOT m = x AND NOT (m::u8)"
  by (simp add: and.assoc)

lemma and_not_mask0: "(x AND NOT m) AND m = (0::u8)"
  by (simp add: and.assoc)

lemma find_fold_last:
  "i < n \<Longrightarrow> tbl i = h \<Longrightarrow> (\<forall>j. i < j \<and> j < n \<longrightarrow> tbl j \<noteq> h) \<Longrightarrow>
   fold (\<lambda>i idx. if h = tbl i then i else idx) [0..<n] d = i"
proof (induction n)
  case 0
  then show ?case by simp
next
  case (Suc n)
  show ?case
  proof (cases "i = n")
    case True
    with Suc.prems show ?thesis by simp
  next
    case False
    with Suc.prems have "i < n" and "tbl n \<noteq> h" by auto
    with Suc show ?thesis by auto
  qed
qed

lemma find_fold_none:
  "(\<forall>i<n. tbl i \<noteq> h) \<Longrightarrow> fold (\<lambda>i idx. if h = tbl i then i else idx) [0..<n] d = d"
  by (induction n) auto

lemma find_fold_cases:
  "fold (\<lambda>i idx. if h = tbl i then i else idx) [0..<n] d = d \<and> (\<forall>i<n. tbl i \<noteq> h) \<or>
   (fold (\<lambda>i idx. if h = tbl i then i else idx) [0..<n] d < n \<and>
    tbl (fold (\<lambda>i idx. if h = tbl i then i else idx) [0..<n] d) = h)"
  by (induction n) (auto simp: less_Suc_eq)

lemma find_id_last:
  "i < numSensors \<Longrightarrow> tbl i = h \<Longrightarrow> (\<forall>j. i < j \<and> j < numSensors \<longrightarrow> tbl j \<noteq> h) \<Longrightarrow>
   find_id tbl h = i"
  unfolding find_id_def by (rule find_fold_last)

lemma find_id_none: "(\<forall>i<numSensors. tbl i \<noteq> h) \<Longrightarrow> find_id tbl h = numSensors + 1"
  unfolding find_id_def by (rule find_fold_none)

lemma find_id_found: "find_id tbl h \<le> numSensors \<Longrightarrow> find_id tbl h < numSensors \<and> tbl (find_id tbl h) = h"
  unfolding find_id_def
  using find_fold_cases [of h tbl numSensors "numSensors + 1"] by auto

lemma find_id_accept_iff: "(find_id tbl h \<le> numSensors) = (\<exists>i<numSensors. tbl i = h)"
  unfolding find_id_def
  using find_fold_cases [of h tbl numSensors "numSensors + 1"] by auto

lemma loop592_bit_error:
  "received s \<Longrightarrow> decode_bits cfg (pulseDurations s) (syncIndex s) = None \<Longrightarrow>
   loop592 cfg ms s = (Some BitTimingError, rearm s)"
  by (simp add: loop592_def)

lemma loop592_crc_error:
  "received s \<Longrightarrow> decode_bits cfg (pulseDurations s) (syncIndex s) = Some bs \<Longrightarrow>
   checksum bs \<noteq> crc (overlay bs) \<Longrightarrow>
   loop592 cfg ms s = (Some CRCError, rearm (s\<lparr>CRC := checksum bs\<rparr>))"
  by (simp add: loop592_def)

lemma loop592_id_error:
  "received s \<Longrightarrow> decode_bits cfg (pulseDurations s) (syncIndex s) = Some bs \<Longrightarrow>
   checksum bs = crc (overlay bs) \<Longrightarrow>
   find_id (probeIdArray cfg) (hexID (overlay bs)) > numSensors \<Longrightarrow>
   loop592 cfg ms s = (Some SensorIdError, rearm (s\<lparr>CRC := checksum bs\<rparr>))"
  by (simp add: loop592_def)

lemma loop592_accept:
  "received s \<Longrightarrow> decode_bits cfg (pulseDurations s) (syncIndex s) = Some bs \<Longrightarrow>
   checksum bs = crc (overlay bs) \<Longrightarrow>
   find_id (probeIdArray cfg) (hexID (overlay bs)) = i \<Longrightarrow> i \<le> numSensors \<Longrightarrow>
   loop592 cfg ms s =
     (None, (rearm (s\<lparr>CRC := checksum bs\<rparr>))\<lparr>sensorData :=
        ageStaleData cfg (ms div 1000) (merge_frame cfg ms (overlay bs) i (sensorData s))\<rparr>)"
  by (simp add: loop592_def rearm_def Let_def)

lemma loop592_idle:
  "\<not> received s \<Longrightarrow>
   loop592 cfg ms s = (None, s\<lparr>sensorData := ageStaleData cfg (ms div 1000) (sensorData s)\<rparr>)"
  by (simp add: loop592_def)

lemma loop592_error_state:
  "fst (loop592 cfg ms s) = Some e \<Longrightarrow>
   sensorData (snd (loop592 cfg ms s)) = sensorData s \<and> \<not> received (snd (loop592 cfg ms s)) \<and>
   \<not> syncFound (snd (loop592 cfg ms s)) \<and> attached (snd (loop592 cfg ms s))"
  by (auto simp: loop592_def rearm_def Let_def split: if_splits option.splits)

lemma checksum_7:
  "checksum [b0, b1, b2, b3, b4, b5, b6] = b0 + b1 + b2 + b3 + b4 + b5"
  by (simp add: checksum_def DATABYTESCNT_def upt_rec)

lemma unat_sum6:
  fixes b0 :: u8
  shows "unat (b0 + b1 + b2 + b3 + b4 + b5) =
         (unat b0 + unat b1 + unat b2 + unat b3 + unat b4 + unat b5) mod 256"
  by (simp add: unat_word_ariths mod_simps)

lemma overlay_7:
  "overlay [b0, b1, b2, b3, b4, b5, b6] =
     \<lparr>id_high = b0, id_low = b1, status = b2, rsvd = b3, temperature_high = b4,
      temperature_low = b5, crc = b6\<rparr>"
  by (simp add: overlay_def)

lemma unat_ucast_8_16: "unat (ucast (x::u8) :: u16) = unat x"
proof -
  have "unat x < 2 ^ 16"
    using unsigned_less [of x, where 'a = nat] by simp
  then show ?thesis
    by (simp add: unsigned_ucast_eq take_bit_nat_eq_self)
qed

lemma unat_hexID:
  "unat (hexID f) = unat (id_high f) * 256 + unat (id_low f)"
proof -
  have "unat (id_high f) < 256" "unat (id_low f) < 256"
    using unsigned_less [of "id_high f", where 'a = nat]
      unsigned_less [of "id_low f", where 'a = nat] by simp_all
  then have "unat (id_high f) * 256 + unat (id_low f) < 65536" by arith
  then show ?thesis
    by (simp add: hexID_def unat_word_ariths unat_ucast_8_16)
qed

text \<open>
  Whatever the ring buffer holds, the bytes that the decoding loop returns are seven: the
  theorems below that speak of the decoded bytes \<open>[b0, b1, b2, b3, b4, b5, b6]\<close> speak
  of every frame that is decoded.
\<close>

lemma decode_loop_length:
  "decode_loop N ring i ringIdx dataBytes = Some bs \<Longrightarrow> length bs = length dataBytes"
proof (induction N ring i ringIdx dataBytes rule: decode_loop.induct)
  case (1 N ring i ringIdx dataBytes)
  let ?bit = "convertTimingToBit (ucast (ring (ringIdx mod N))) (ucast (ring ((ringIdx + 1) mod N)))"
  let ?next = "dataBytes[i div 8 := dataBytes ! (i div 8) OR push_bit (7 - i mod 8) (word_of_int ?bit)]"
  have u: "(if i < DATABITSCNT
            then (if ?bit < 0 then None else decode_loop N ring (i + 1) (ringIdx + 2) ?next)
            else Some dataBytes) = Some bs"
    using "1.prems"
    by (simp only: decode_loop.simps [of N ring i ringIdx dataBytes] Let_def)
  show ?case
  proof (cases "i < DATABITSCNT")
    case False
    with u show ?thesis by (simp del: decode_loop.simps)
  next
    case True
    with u have nb: "\<not> ?bit < 0"
      by (cases "?bit < 0") (simp_all del: decode_loop.simps)
    with True u have "decode_loop N ring (i + 1) (ringIdx + 2) ?next = Some bs"
      by (simp del: decode_loop.simps)
    from "1.IH" [OF True refl nb this] show ?thesis by (simp del: decode_loop.simps)
  qed
qed

lemma decode_bits_length:
  "decode_bits cfg ring syncIdx = Some bs \<Longrightarrow> length bs = 7"
  unfolding decode_bits_def
  by (drule decode_loop_length) (simp add: DATABYTESCNT_def del: decode_loop.simps)

lemma decode_bits_seven:
  assumes "decode_bits cfg ring syncIdx = Some bs"
  shows "\<exists>b0 b1 b2 b3 b4 b5 b6. bs = [b0, b1, b2, b3, b4, b5, b6]"
proof -
  have "length bs = 7" using assms by (rule decode_bits_length)
  then show ?thesis
    by (auto simp: eval_nat_numeral length_Suc_conv)
qed

subsection \<open>The concrete inputs evaluated\<close>

lemma replicate_7: "replicate 7 x = [x, x, x, x, x, x, x]"
  by (simp add: eval_nat_numeral)

lemmas decode_eval =
  decode_bits_def example_config_def pulse_train_def geometry_defs convertTimingToBit_def
  timing_defs replicate_7 frame_ready_def

lemma decode_example:
  "decode_bits (example_config tbl) (pulseDurations (frame_ready example_bytes))
     (syncIndex (frame_ready example_bytes)) = Some example_bytes"
  by (simp add: decode_eval example_bytes_def)

lemma decode_channel_b:
  "decode_bits (example_config tbl) (pulseDurations (frame_ready channel_b_bytes))
     (syncIndex (frame_ready channel_b_bytes)) = Some channel_b_bytes"
  by (simp add: decode_eval channel_b_bytes_def)


lemma decode_damaged:
  "decode_bits (example_config tbl) (pulseDurations (frame_ready damaged_bytes))
     (syncIndex (frame_ready damaged_bytes)) = Some damaged_bytes"
  by (simp add: decode_eval damaged_bytes_def)

lemma decode_silence:
  "decode_bits (example_config tbl) (pulseDurations ((setup592 power_on)\<lparr>received := True\<rparr>))
     (syncIndex ((setup592 power_on)\<lparr>received := True\<rparr>)) = None"
  by (simp add: decode_eval setup592_def power_on_def)

lemma received_frame_ready: "received (frame_ready bs)"
  by (simp add: frame_ready_def)

lemma example_checksums:
  "checksum example_bytes = crc (overlay example_bytes)"
  "checksum channel_b_bytes = crc (overlay channel_b_bytes)"
  "checksum frost_bytes = crc (overlay frost_bytes)"
  "checksum damaged_bytes \<noteq> crc (overlay damaged_bytes)"
  by (simp_all add: example_bytes_def channel_b_bytes_def frost_bytes_def damaged_bytes_def
      checksum_7 overlay_7)

lemma example_hexIDs:
  "hexID (overlay example_bytes) = 0xC34A"
  "hexID (overlay channel_b_bytes) = 0x834A"
  "hexID (overlay frost_bytes) = 0xC34A"
  by (simp_all add: example_bytes_def channel_b_bytes_def frost_bytes_def overlay_7 hexID_def)

lemma find_id_table_of:
  "find_id (table_of [a]) h = (if h = a \<and> h \<noteq> 0xFFFF then 0 else if h = 0xFFFF then 5 else 7)"
  "find_id (table_of [a, b, c]) h =
     (if h = 0xFFFF then 5 else if h = c then 2 else if h = b then 1 else if h = a then 0 else 7)"
  by (simp_all add: find_id_def numSensors_def table_of_def upt_rec)

section \<open>The address that is looked up\<close>

text \<open>
  Claim C1, as amended. For every frame of seven bytes that has passed the checksum, the
  address compared with the table is the 16-bit value \<open>byte0 * 256 + byte1\<close>: all eight
  bits of byte0, the two channel bits included, followed by byte1. The frame is merged
  exactly when some entry of the table equals that value.
\<close>

theorem lookup_address_is_both_bytes:
  assumes "received s"
    and "decode_bits cfg (pulseDurations s) (syncIndex s) = Some [b0, b1, b2, b3, b4, b5, b6]"
    and "checksum [b0, b1, b2, b3, b4, b5, b6] = b6"
  shows "unat (hexID (overlay [b0, b1, b2, b3, b4, b5, b6])) = unat b0 * 256 + unat b1 \<and>
         (fst (loop592 cfg ms s) = None) =
           (\<exists>i<numSensors. unat (probeIdArray cfg i) = unat b0 * 256 + unat b1)"
proof -
  let ?bs = "[b0, b1, b2, b3, b4, b5, b6]"
  have h: "unat (hexID (overlay ?bs)) = unat b0 * 256 + unat b1"
    by (simp add: unat_hexID overlay_7)
  have c: "checksum ?bs = crc (overlay ?bs)"
    using assms(3) by (simp add: overlay_7)
  have "(fst (loop592 cfg ms s) = None) =
        (find_id (probeIdArray cfg) (hexID (overlay ?bs)) \<le> numSensors)"
  proof (cases "find_id (probeIdArray cfg) (hexID (overlay ?bs)) \<le> numSensors")
    case True
    then show ?thesis
      using loop592_accept [OF assms(1,2) c refl True] by simp
  next
    case False
    then have "find_id (probeIdArray cfg) (hexID (overlay ?bs)) > numSensors" by simp
    from loop592_id_error [OF assms(1,2) c this] False show ?thesis by simp
  qed
  also have "\<dots> = (\<exists>i<numSensors. probeIdArray cfg i = hexID (overlay ?bs))"
    by (rule find_id_accept_iff)
  also have "\<dots> = (\<exists>i<numSensors. unat (probeIdArray cfg i) = unat b0 * 256 + unat b1)"
    by (simp add: word_unat_eq_iff h)
  finally show ?thesis using h by simp
qed

text \<open>
  The theorem at the frame of the end-to-end test, \<open>[0xC3, 0x4A, ...]\<close>: it is accepted
  when the table holds 0xC34A.
\<close>

theorem lookup_address_is_both_bytes_witness:
  "unat (hexID (overlay example_bytes)) = 0xC3 * 256 + 0x4A \<and>
   fst (loop592 (example_config (table_of [0xC34A])) 5000 (frame_ready example_bytes)) = None"
proof -
  have "\<exists>i<numSensors. unat (probeIdArray (example_config (table_of [0xC34A])) i) =
          unat (0xC3 :: u8) * 256 + unat (0x4A :: u8)"
    by (rule exI [of _ 0]) (simp add: numSensors_def example_config_def table_of_def)
  then show ?thesis
    using lookup_address_is_both_bytes
      [of "frame_ready example_bytes" "example_config (table_of [0xC34A])"
          "0xC3" "0x4A" "0x44" "0x90" "0x08" "0x10" "0xF9" 5000]
      received_frame_ready [of example_bytes]
      decode_example [of "table_of [0xC34A]"]
    by (simp add: example_bytes_def checksum_7)
qed

text \<open>
  Claim C1 as stated fails at the frame of the end-to-end test: the address that is looked
  up is 0xC34A, not 0x034A, and with 0x034A registered the frame ends in the diagnostic
  for an unknown sensor.
\<close>

theorem example_frame_not_found_under_0x034A:
  "hexID (overlay example_bytes) = 0xC34A \<and>
   hexID (overlay example_bytes) \<noteq> 0x034A \<and>
   fst (loop592 (example_config (table_of [0x034A])) 5000 (frame_ready example_bytes))
     = Some SensorIdError"
proof -
  have "find_id (probeIdArray (example_config (table_of [0x034A]))) (hexID (overlay example_bytes))
          > numSensors"
    by (simp add: example_hexIDs find_id_table_of example_config_def numSensors_def)
  from loop592_id_error [OF received_frame_ready decode_example example_checksums(1) this]
  show ?thesis by (simp add: example_hexIDs)
qed

section \<open>The staleness sweep\<close>

text \<open>
  Claim C9. For a slot with timestamp \<open>T\<close> and stale timeout \<open>S\<close>, where \<open>T + S + 1\<close> is
  a value of the 32-bit clock and \<open>T + S - 1\<close> is not negative: the sweep at \<open>T + S + 1\<close>
  clears the fresh flag of the slot, the sweep at \<open>T + S - 1\<close> leaves the slot as it
  is, no sweep changes a field other than the bits of the status under the fresh mask,
  and sweeping twice at the same time gives what sweeping once gives.
\<close>

theorem ageStaleData_sweep:
  assumes "i < numSensors" 
    and "unat (timestamp (sd i)) + unat (SENSOR_STALE_DATA_TIMEOUT cfg) + 1 < 2 ^ 32"
    and "1 \<le> unat (timestamp (sd i)) + unat (SENSOR_STALE_DATA_TIMEOUT cfg)"
  shows "slot_status (ageStaleData cfg (timestamp (sd i) + SENSOR_STALE_DATA_TIMEOUT cfg + 1) sd i)
           AND SENSOR_DATA_FRESH_MASK cfg = 0 \<and>
         ageStaleData cfg (timestamp (sd i) + SENSOR_STALE_DATA_TIMEOUT cfg - 1) sd i = sd i \<and>
         (\<forall>now j. slot_id (ageStaleData cfg now sd j) = slot_id (sd j) \<and>
                  temperature (ageStaleData cfg now sd j) = temperature (sd j) \<and>
                  timestamp (ageStaleData cfg now sd j) = timestamp (sd j) \<and>
                  slot_status (ageStaleData cfg now sd j) AND NOT (SENSOR_DATA_FRESH_MASK cfg) =
                    slot_status (sd j) AND NOT (SENSOR_DATA_FRESH_MASK cfg)) \<and>
         (\<forall>now. ageStaleData cfg now (ageStaleData cfg now sd) = ageStaleData cfg now sd)"
proof -
  let ?T = "timestamp (sd i)" and ?S = "SENSOR_STALE_DATA_TIMEOUT cfg"
  have a: "?T + ?S < ?T + ?S + 1"
    using assms(2) by (rule no_wrap_succ)
  have b: "\<not> ?T + ?S < ?T + ?S - 1"
    using assms(2,3) by (intro no_wrap_pred) simp_all
  have 1: "slot_status (ageStaleData cfg (?T + ?S + 1) sd i) AND SENSOR_DATA_FRESH_MASK cfg = 0"
    using a assms(1) by (simp add: ageStaleData_apply and_not_mask0)
  have 2: "ageStaleData cfg (?T + ?S - 1) sd i = sd i"
    using b by (simp add: ageStaleData_apply)
  have 3: "slot_id (ageStaleData cfg now sd j) = slot_id (sd j) \<and>
           temperature (ageStaleData cfg now sd j) = temperature (sd j) \<and>
           timestamp (ageStaleData cfg now sd j) = timestamp (sd j) \<and>
           slot_status (ageStaleData cfg now sd j) AND NOT (SENSOR_DATA_FRESH_MASK cfg) =
             slot_status (sd j) AND NOT (SENSOR_DATA_FRESH_MASK cfg)" for now j
    by (simp add: ageStaleData_apply and_not_idem)
  have 4: "ageStaleData cfg now (ageStaleData cfg now sd) = ageStaleData cfg now sd" for now
    by (rule ext) (simp add: ageStaleData_apply and_not_idem)
  from 1 2 3 4 show ?thesis by blast
qed

text \<open>
  The theorem at a slot refreshed at second 100 with a timeout of 60 s: the sweep at
  second 161 clears its fresh flag, the sweep at second 159 does not.
\<close>

theorem ageStaleData_sweep_witness:
  "slot_status (fresh_slots 0) AND 0x40 = 0x40 \<and>
   slot_status (ageStaleData (example_config (table_of [])) 161 fresh_slots 0) AND 0x40 = 0 \<and>
   ageStaleData (example_config (table_of [])) 159 fresh_slots 0 = fresh_slots 0 \<and>
   ageStaleData (example_config (table_of [])) 161
     (ageStaleData (example_config (table_of [])) 161 fresh_slots) =
   ageStaleData (example_config (table_of [])) 161 fresh_slots"
  using ageStaleData_sweep [of 0 fresh_slots "example_config (table_of [])"]
  by (simp add: numSensors_def example_config_def fresh_slots_def)

section \<open>Further auxiliary facts\<close>

subsection \<open>The accepted path and the temperature\<close>

lemma merge_frame_other: "k \<noteq> i \<Longrightarrow> merge_frame cfg ms f i sd k = sd k"
  by (simp add: merge_frame_def Let_def)

lemma merge_frame_same:
  "merge_frame cfg ms f i sd i =
     \<lparr>slot_id = of_nat i + 1,
      slot_status =
        (if status f AND SENSOR_BATTERY_LOW_MASK = SENSOR_BATTERY_LOW_VAL
         then slot_status (sd i) OR SENSOR_BATTERY_LOW
         else slot_status (sd i) AND NOT SENSOR_BATTERY_LOW) OR
        (SENSOR_DATA_FRESH_VAL cfg AND SENSOR_DATA_FRESH_MASK cfg),
      temperature = extract_temperature f,
      timestamp = ms div 1000\<rparr>"
  by (simp add: merge_frame_def Let_def)

lemma ageStaleData_fields:
  "slot_id (ageStaleData cfg now sd j) = slot_id (sd j)"
  "temperature (ageStaleData cfg now sd j) = temperature (sd j)"
  "timestamp (ageStaleData cfg now sd j) = timestamp (sd j)"
  by (simp_all add: ageStaleData_apply)




lemma loop592_accept_slots:
  assumes "received s"
    and "decode_bits cfg (pulseDurations s) (syncIndex s) = Some bs"
    and "checksum bs = crc (overlay bs)"
    and "find_id (probeIdArray cfg) (hexID (overlay bs)) = i"
    and "i \<le> numSensors"
  shows "fst (loop592 cfg ms s) = None"
    and "sensorData (snd (loop592 cfg ms s)) =
           ageStaleData cfg (ms div 1000) (merge_frame cfg ms (overlay bs) i (sensorData s))"
  using loop592_accept [OF assms, of ms] by (simp_all add: rearm_def)


lemma example_tables:
  "find_id (probeIdArray (example_config (table_of [0xC34A]))) (hexID (overlay example_bytes)) = 0"
  "find_id (probeIdArray (example_config (table_of [0xC34A]))) (hexID (overlay frost_bytes)) = 0"
  "find_id (probeIdArray (example_config (table_of [0x834A]))) (hexID (overlay channel_b_bytes)) = 0"
  by (simp_all add: example_hexIDs find_id_table_of example_config_def)

lemma example_config_table:
  "(example_config tbl)\<lparr>probeIdArray := tbl'\<rparr> = example_config tbl'"
  by (simp add: example_config_def)

lemma setup_slot_0:
  "sensorData (frame_ready bs) 0 = \<lparr>slot_id = 1, slot_status = 0, temperature = 0, timestamp = 0\<rparr>"
  by (simp add: frame_ready_def setup592_def numSensors_def)

lemma ageStaleData_table:
  "ageStaleData (cfg\<lparr>probeIdArray := tbl'\<rparr>) now sd = ageStaleData cfg now sd"
  by (rule ext) (simp add: ageStaleData_apply)

lemma merge_frame_cong:
  assumes "status f' = status f" "temperature_high f' = temperature_high f"
    "temperature_low f' = temperature_low f"
  shows "merge_frame (cfg\<lparr>probeIdArray := tbl'\<rparr>) ms f' i sd = merge_frame cfg ms f i sd"
  using assms by (simp add: merge_frame_def extract_temperature_def)

lemma table_0x034A_misses:
  "\<forall>i<numSensors. probeIdArray (example_config (table_of [0x034A])) i \<noteq> hexID (overlay example_bytes)"
  by (simp add: example_hexIDs example_config_def table_of_def)

subsection \<open>The handler\<close>

lemma handler_received: "received s \<Longrightarrow> handler_rf433 cfg pin micros s = s\<lparr>bitState := pin\<rparr>"
  by (simp add: handler_rf433_def)

lemma handler_stores:
  assumes "\<not> received s"
  shows "ringIndex (handler_rf433 cfg pin micros s) = (ringIndex s + 1) mod RING_BUFFER_SIZE cfg \<and>
         pulseDurations (handler_rf433 cfg pin micros s) =
           (pulseDurations s)((ringIndex s + 1) mod RING_BUFFER_SIZE cfg := micros - lastTime s)"
  using assms by (simp add: handler_rf433_def Let_def)

lemma handler_fold_received:
  "received s \<Longrightarrow>
   \<exists>b. fold (\<lambda>e. handler_rf433 cfg (fst e) (snd e)) edges s = s\<lparr>bitState := b\<rparr>"
proof (induction edges arbitrary: s)
  case Nil
  have "fold (\<lambda>e. handler_rf433 cfg (fst e) (snd e)) [] s = s\<lparr>bitState := bitState s\<rparr>"
    by simp
  then show ?case by (rule exI)
next
  case (Cons e edges)
  have r: "received (s\<lparr>bitState := fst e\<rparr>)" using Cons.prems by simp
  from Cons.IH [OF r] obtain b where
    "fold (\<lambda>e. handler_rf433 cfg (fst e) (snd e)) edges (s\<lparr>bitState := fst e\<rparr>) =
       s\<lparr>bitState := fst e\<rparr>\<lparr>bitState := b\<rparr>" by blast
  then have "fold (\<lambda>e. handler_rf433 cfg (fst e) (snd e)) (e # edges) s = s\<lparr>bitState := b\<rparr>"
    using Cons.prems by (simp add: handler_received)
  then show ?case by blast
qed

lemma handler_out_of_bounds:
  assumes "\<not> received s"
    and "pulse_out_of_bounds cfg (micros - lastTime s)"
  shows "\<not> received (handler_rf433 cfg pin micros s) \<and>
         ringIndex (handler_rf433 cfg pin micros s) = (ringIndex s + 1) mod RING_BUFFER_SIZE cfg \<and>
         pulseDurations (handler_rf433 cfg pin micros s) =
           (pulseDurations s)((ringIndex s + 1) mod RING_BUFFER_SIZE cfg := micros - lastTime s) \<and>
         (if isSync cfg (pulseDurations (handler_rf433 cfg pin micros s))
               (ringIndex (handler_rf433 cfg pin micros s))
          then syncFound (handler_rf433 cfg pin micros s) \<and>
               changeCount (handler_rf433 cfg pin micros s) = 0 \<and>
               syncIndex (handler_rf433 cfg pin micros s) = ringIndex (handler_rf433 cfg pin micros s)
          else \<not> syncFound (handler_rf433 cfg pin micros s) \<and>
               changeCount (handler_rf433 cfg pin micros s) = 1)"
proof (cases "isSync cfg
    ((pulseDurations s)((ringIndex s + 1) mod RING_BUFFER_SIZE cfg := micros - lastTime s))
    ((ringIndex s + 1) mod RING_BUFFER_SIZE cfg)")
  case True
  then have "handler_rf433 cfg pin micros s =
    s\<lparr>bitState := pin, duration := micros - lastTime s, lastTime := micros,
      received := False, 
      ringIndex := (ringIndex s + 1) mod RING_BUFFER_SIZE cfg,
      pulseDurations := (pulseDurations s)
         ((ringIndex s + 1) mod RING_BUFFER_SIZE cfg := micros - lastTime s),
      syncFound := True, changeCount := 0,
      syncIndex := (ringIndex s + 1) mod RING_BUFFER_SIZE cfg,
      dataIndex := ((ringIndex s + 1) mod RING_BUFFER_SIZE cfg + 1) mod RING_BUFFER_SIZE cfg\<rparr>"
    using assms by (simp add: handler_rf433_def Let_def DATABITSEDGES_def)
  then show ?thesis using True by simp
next
  case False
  then have "handler_rf433 cfg pin micros s =
    s\<lparr>bitState := pin, duration := micros - lastTime s, lastTime := micros,
      received := False, syncFound := False,
      ringIndex := (ringIndex s + 1) mod RING_BUFFER_SIZE cfg,
      pulseDurations := (pulseDurations s)
         ((ringIndex s + 1) mod RING_BUFFER_SIZE cfg := micros - lastTime s),
      changeCount := 1\<rparr>"
    using assms by (simp add: handler_rf433_def Let_def)
  then show ?thesis using False by simp
qed

lemma example_config_sel:
  "RING_BUFFER_SIZE (example_config tbl) = 152"
  "PULSE_LONG (example_config tbl) = 400"
  "PULSE_SHORT (example_config tbl) = 200"
  "SENSOR_STALE_DATA_TIMEOUT (example_config tbl) = 60"
  "SENSOR_DATA_FRESH_MASK (example_config tbl) = 0x40"
  "SENSOR_DATA_FRESH_VAL (example_config tbl) = 0x40"
  "probeIdArray (example_config tbl) = tbl"
  by (simp_all add: example_config_def)

lemma isSync_silence:
  "\<not> isSync (example_config tbl) ((\<lambda>_. 0)(Suc 0 := d)) (Suc 0)"
  by (simp add: isSync_def example_config_def SYNCPULSEEDGES_def SYNC_HIGH_def SYNC_LOW_def)

lemma isSync_train:
  "isSync (example_config tbl) ((\<lambda>_. 600)(Suc 0 := 600)) (Suc 0)"
  by (simp add: isSync_def example_config_def SYNCPULSEEDGES_def SYNC_HIGH_def SYNC_LOW_def)

section \<open>The stored temperature\<close>







section \<open>The channel bits\<close>

text \<open>
  Claim C3, as amended. For every accepted frame the update of the matched slot writes
  the slot id, the battery-low and fresh bits of the status, the temperature and the
  timestamp, and nothing computed from the channel bits: two accepted frames that resolve
  to the same slot index, start from the same slots and agree on bytes 2, 4 and 5 leave
  the same slots, whatever their first two bytes and the tables are. The top two bits of
  byte0 only take part in the comparison of the 16-bit address with the table.
\<close>

theorem slot_update_ignores_channel:
  assumes "received s"
    and "decode_bits cfg (pulseDurations s) (syncIndex s) = Some bs"
    and "checksum bs = crc (overlay bs)"
    and "find_id (probeIdArray cfg) (hexID (overlay bs)) = i"
    and "i \<le> numSensors"
    and "received s'"
    and "decode_bits (cfg\<lparr>probeIdArray := tbl'\<rparr>) (pulseDurations s') (syncIndex s') = Some bs'"
    and "checksum bs' = crc (overlay bs')"
    and "find_id tbl' (hexID (overlay bs')) = i"
    and "sensorData s' = sensorData s"
    and "bs' ! 2 = bs ! 2" and "bs' ! 4 = bs ! 4" and "bs' ! 5 = bs ! 5"
  shows "fst (loop592 cfg ms s) = None \<and>
         fst (loop592 (cfg\<lparr>probeIdArray := tbl'\<rparr>) ms s') = None \<and>
         sensorData (snd (loop592 (cfg\<lparr>probeIdArray := tbl'\<rparr>) ms s')) =
           sensorData (snd (loop592 cfg ms s))"
proof -
  note a = loop592_accept_slots [OF assms(1-5), of ms]
  have "find_id (probeIdArray (cfg\<lparr>probeIdArray := tbl'\<rparr>)) (hexID (overlay bs')) = i"
    using assms(9) by simp
  note b = loop592_accept_slots [OF assms(6-8) this assms(5), of ms]
  have "merge_frame (cfg\<lparr>probeIdArray := tbl'\<rparr>) ms (overlay bs') i (sensorData s') =
        merge_frame cfg ms (overlay bs) i (sensorData s)"
    unfolding assms(10)
    by (rule merge_frame_cong) (simp_all add: overlay_def assms(11-13))
  with a b show ?thesis by (simp add: ageStaleData_table)
qed

text \<open>
  The theorem at the frame of the end-to-end test (channel bits 11) and at the same frame
  with channel bits 10, each registered in slot 0 of its table.
\<close>

theorem slot_update_ignores_channel_witness:
  "fst (loop592 (example_config (table_of [0xC34A])) 5000 (frame_ready example_bytes)) = None \<and>
   fst (loop592 (example_config (table_of [0x834A])) 5000 (frame_ready channel_b_bytes)) = None \<and>
   sensorData (snd (loop592 (example_config (table_of [0x834A])) 5000 (frame_ready channel_b_bytes)))
     = sensorData (snd (loop592 (example_config (table_of [0xC34A])) 5000 (frame_ready example_bytes)))"
proof -
  have d: "decode_bits ((example_config (table_of [0xC34A]))\<lparr>probeIdArray := table_of [0x834A]\<rparr>)
             (pulseDurations (frame_ready channel_b_bytes)) (syncIndex (frame_ready channel_b_bytes))
           = Some channel_b_bytes"
    by (simp add: decode_channel_b example_config_table)
  have f: "find_id (table_of [0x834A]) (hexID (overlay channel_b_bytes)) = 0"
    using example_tables(3) by (simp add: example_config_def)
  have e: "sensorData (frame_ready channel_b_bytes) = sensorData (frame_ready example_bytes)"
    by (simp add: frame_ready_def)
  have q: "channel_b_bytes ! 2 = example_bytes ! 2" "channel_b_bytes ! 4 = example_bytes ! 4"
    "channel_b_bytes ! 5 = example_bytes ! 5"
    by (simp_all add: example_bytes_def channel_b_bytes_def)
  have "0 \<le> numSensors" by simp
  from slot_update_ignores_channel
    [OF received_frame_ready decode_example example_checksums(1) example_tables(1) this
        received_frame_ready d example_checksums(2) f e q, of 5000]
  show ?thesis by (simp add: example_config_table)
qed

text \<open>
  Claim C3 as stated fails at the frame of the end-to-end test: the reading written for
  byte0 = 0xC3 (channel bits 11) is field for field the reading written for byte0 = 0x83
  (channel bits 10); the reading has no field that tells channel A from channel B.
\<close>

theorem reading_carries_no_channel:
  "drop_bit 6 (example_bytes ! 0) = 3 \<and> drop_bit 6 (channel_b_bytes ! 0) = 2 \<and>
   sensorData (snd (loop592 (example_config (table_of [0xC34A])) 5000 (frame_ready example_bytes))) 0
     = \<lparr>slot_id = 1, slot_status = 0x40, temperature = 16, timestamp = 5\<rparr> \<and>
   sensorData (snd (loop592 (example_config (table_of [0x834A])) 5000 (frame_ready channel_b_bytes))) 0
     = \<lparr>slot_id = 1, slot_status = 0x40, temperature = 16, timestamp = 5\<rparr>"
proof -
  have a: "sensorData (snd (loop592 (example_config (table_of [0xC34A])) 5000
             (frame_ready example_bytes))) 0
           = \<lparr>slot_id = 1, slot_status = 0x40, temperature = 16, timestamp = 5\<rparr>"
    unfolding loop592_accept_slots(2)
        [OF received_frame_ready decode_example example_checksums(1) example_tables(1) le0]
    by (simp add: ageStaleData_apply merge_frame_same setup_slot_0 extract_temperature_def
        example_bytes_def overlay_7 example_config_def SENSOR_BATTERY_LOW_MASK_def
        SENSOR_BATTERY_LOW_VAL_def SENSOR_BATTERY_LOW_def)
  have b: "sensorData (snd (loop592 (example_config (table_of [0x834A])) 5000
             (frame_ready channel_b_bytes))) 0
           = \<lparr>slot_id = 1, slot_status = 0x40, temperature = 16, timestamp = 5\<rparr>"
    unfolding loop592_accept_slots(2)
        [OF received_frame_ready decode_channel_b example_checksums(2) example_tables(3) le0]
    by (simp add: ageStaleData_apply merge_frame_same setup_slot_0 extract_temperature_def
        channel_b_bytes_def overlay_7 example_config_def SENSOR_BATTERY_LOW_MASK_def
        SENSOR_BATTERY_LOW_VAL_def SENSOR_BATTERY_LOW_def)
  show ?thesis using a b by (simp add: example_bytes_def channel_b_bytes_def)
qed

section \<open>The checksum\<close>

text \<open>
  Claim C5. For the seven bytes decoded from a received frame, the checksum test succeeds
  exactly when byte 6 equals the sum of bytes 0 to 5 modulo 256; the function ends with
  the checksum diagnostic exactly when it fails, and then no sensor slot is changed and
  both the received flag and the sync flag are cleared (the assembler is searching
  again).
\<close>

theorem checksum_validation:
  assumes "received s"
    and "decode_bits cfg (pulseDurations s) (syncIndex s) = Some [b0, b1, b2, b3, b4, b5, b6]"
  shows "(checksum [b0, b1, b2, b3, b4, b5, b6] = crc (overlay [b0, b1, b2, b3, b4, b5, b6])) =
           (unat b6 = (unat b0 + unat b1 + unat b2 + unat b3 + unat b4 + unat b5) mod 256) \<and>
         (fst (loop592 cfg ms s) = Some CRCError) =
           (unat b6 \<noteq> (unat b0 + unat b1 + unat b2 + unat b3 + unat b4 + unat b5) mod 256) \<and>
         (unat b6 \<noteq> (unat b0 + unat b1 + unat b2 + unat b3 + unat b4 + unat b5) mod 256 \<longrightarrow>
            sensorData (snd (loop592 cfg ms s)) = sensorData s \<and>
            \<not> received (snd (loop592 cfg ms s)) \<and> \<not> syncFound (snd (loop592 cfg ms s)))"
proof -
  let ?bs = "[b0, b1, b2, b3, b4, b5, b6]"
  let ?sum = "(unat b0 + unat b1 + unat b2 + unat b3 + unat b4 + unat b5) mod 256"
  have v: "(checksum ?bs = crc (overlay ?bs)) = (unat b6 = ?sum)"
    by (simp add: checksum_7 overlay_7 word_unat_eq_iff unat_sum6 eq_commute)
  have e: "(fst (loop592 cfg ms s) = Some CRCError) = (checksum ?bs \<noteq> crc (overlay ?bs))"
    using assms by (simp add: loop592_def Let_def)
  have u: "sensorData (snd (loop592 cfg ms s)) = sensorData s \<and>
           \<not> received (snd (loop592 cfg ms s)) \<and> \<not> syncFound (snd (loop592 cfg ms s))"
    if "checksum ?bs \<noteq> crc (overlay ?bs)"
    using loop592_crc_error [OF assms that] by (simp add: rearm_def)
  from v e u show ?thesis by simp
qed

text \<open>
  The theorem at the frame of the end-to-end test with its last byte replaced by 0.
\<close>

theorem checksum_validation_witness:
  "unat (0x00 :: u8) \<noteq> (0xC3 + 0x4A + 0x44 + 0x90 + 0x08 + 0x10) mod 256 \<and>
   fst (loop592 (example_config (table_of [0xC34A])) 5000 (frame_ready damaged_bytes))
     = Some CRCError \<and>
   sensorData (snd (loop592 (example_config (table_of [0xC34A])) 5000 (frame_ready damaged_bytes)))
     = sensorData (frame_ready damaged_bytes) \<and>
   \<not> received (snd (loop592 (example_config (table_of [0xC34A])) 5000 (frame_ready damaged_bytes))) \<and>
   \<not> syncFound (snd (loop592 (example_config (table_of [0xC34A])) 5000 (frame_ready damaged_bytes)))"
  using checksum_validation
      [of "frame_ready damaged_bytes" "example_config (table_of [0xC34A])"
          "0xC3" "0x4A" "0x44" "0x90" "0x08" "0x10" "0x00" 5000]
    received_frame_ready [of damaged_bytes]
    decode_damaged [of "table_of [0xC34A]"]
  by (simp add: damaged_bytes_def)

section \<open>The error paths\<close>

text \<open>
  Claim C6. When a frame has been received, a bit pair that matches no template, a
  checksum mismatch and an address that is in no entry of the table each end the function
  with their diagnostic; and whenever the function ends with a diagnostic, every sensor
  slot is what it was before the call, the received and sync flags are cleared, the
  edge interrupt is attached again, and the handler stores the next edge in the ring
  buffer.
\<close>

theorem error_paths_leave_slots_unchanged:
  assumes "received s"
  shows "(decode_bits cfg (pulseDurations s) (syncIndex s) = None \<longrightarrow>
            fst (loop592 cfg ms s) = Some BitTimingError) \<and>
         (\<forall>bs. decode_bits cfg (pulseDurations s) (syncIndex s) = Some bs \<and>
               checksum bs \<noteq> crc (overlay bs) \<longrightarrow>
               fst (loop592 cfg ms s) = Some CRCError) \<and>
         (\<forall>bs. decode_bits cfg (pulseDurations s) (syncIndex s) = Some bs \<and>
               checksum bs = crc (overlay bs) \<and>
               (\<forall>i<numSensors. probeIdArray cfg i \<noteq> hexID (overlay bs)) \<longrightarrow>
               fst (loop592 cfg ms s) = Some SensorIdError) \<and>
         (\<forall>e. fst (loop592 cfg ms s) = Some e \<longrightarrow>
              sensorData (snd (loop592 cfg ms s)) = sensorData s \<and>
              \<not> received (snd (loop592 cfg ms s)) \<and>
              \<not> syncFound (snd (loop592 cfg ms s)) \<and>
              attached (snd (loop592 cfg ms s)) \<and>
              (\<forall>pin micros.
                 pulseDurations (handler_rf433 cfg pin micros (snd (loop592 cfg ms s)))
                   ((ringIndex (snd (loop592 cfg ms s)) + 1) mod RING_BUFFER_SIZE cfg) =
                 micros - lastTime (snd (loop592 cfg ms s))))"
proof -
  have 1: "decode_bits cfg (pulseDurations s) (syncIndex s) = None \<longrightarrow>
           fst (loop592 cfg ms s) = Some BitTimingError"
    using loop592_bit_error [OF assms, of cfg ms] by simp
  have 2: "\<forall>bs. decode_bits cfg (pulseDurations s) (syncIndex s) = Some bs \<and>
             checksum bs \<noteq> crc (overlay bs) \<longrightarrow>
             fst (loop592 cfg ms s) = Some CRCError"
    using loop592_crc_error [OF assms, of cfg _ ms] by simp
  have 3: "\<forall>bs. decode_bits cfg (pulseDurations s) (syncIndex s) = Some bs \<and>
             checksum bs = crc (overlay bs) \<and>
             (\<forall>i<numSensors. probeIdArray cfg i \<noteq> hexID (overlay bs)) \<longrightarrow>
             fst (loop592 cfg ms s) = Some SensorIdError"
  proof (intro allI impI)
    fix bs
    assume a: "decode_bits cfg (pulseDurations s) (syncIndex s) = Some bs \<and>
               checksum bs = crc (overlay bs) \<and>
               (\<forall>i<numSensors. probeIdArray cfg i \<noteq> hexID (overlay bs))"
    then have "find_id (probeIdArray cfg) (hexID (overlay bs)) > numSensors"
      by (simp add: find_id_none)
    with a show "fst (loop592 cfg ms s) = Some SensorIdError"
      using loop592_id_error [OF assms, of cfg bs ms] by simp
  qed
  have 4: "\<forall>e. fst (loop592 cfg ms s) = Some e \<longrightarrow>
              sensorData (snd (loop592 cfg ms s)) = sensorData s \<and>
              \<not> received (snd (loop592 cfg ms s)) \<and>
              \<not> syncFound (snd (loop592 cfg ms s)) \<and>
              attached (snd (loop592 cfg ms s)) \<and>
              (\<forall>pin micros.
                 pulseDurations (handler_rf433 cfg pin micros (snd (loop592 cfg ms s)))
                   ((ringIndex (snd (loop592 cfg ms s)) + 1) mod RING_BUFFER_SIZE cfg) =
                 micros - lastTime (snd (loop592 cfg ms s)))"
  proof (intro allI impI)
    fix e
    assume "fst (loop592 cfg ms s) = Some e"
    note st = loop592_error_state [OF this]
    then have "\<not> received (snd (loop592 cfg ms s))" by simp
    note h = handler_stores [OF this, of cfg]
    from st h show "sensorData (snd (loop592 cfg ms s)) = sensorData s \<and>
              \<not> received (snd (loop592 cfg ms s)) \<and>
              \<not> syncFound (snd (loop592 cfg ms s)) \<and>
              attached (snd (loop592 cfg ms s)) \<and>
              (\<forall>pin micros.
                 pulseDurations (handler_rf433 cfg pin micros (snd (loop592 cfg ms s)))
                   ((ringIndex (snd (loop592 cfg ms s)) + 1) mod RING_BUFFER_SIZE cfg) =
                 micros - lastTime (snd (loop592 cfg ms s)))"
      by simp
  qed
  show ?thesis by (rule conjI [OF 1 conjI [OF 2 conjI [OF 3 4]]])
qed

text \<open>
  The theorem on each of the three paths: a ring without data pulses, the frame with the
  wrong last byte, and the frame of the end-to-end test with only 0x034A registered.
\<close>

theorem error_paths_leave_slots_unchanged_witness:
  "(let s = (setup592 power_on)\<lparr>received := True\<rparr>;
        r = loop592 (example_config (table_of [0xC34A])) 5000 s
    in fst r = Some BitTimingError \<and> sensorData (snd r) = sensorData s \<and>
       \<not> received (snd r) \<and> \<not> syncFound (snd r) \<and> attached (snd r)) \<and>
   (let s = frame_ready damaged_bytes;
        r = loop592 (example_config (table_of [0xC34A])) 5000 s
    in fst r = Some CRCError \<and> sensorData (snd r) = sensorData s \<and>
       \<not> received (snd r) \<and> \<not> syncFound (snd r) \<and> attached (snd r)) \<and>
   (let s = frame_ready example_bytes;
        r = loop592 (example_config (table_of [0x034A])) 5000 s
    in fst r = Some SensorIdError \<and> sensorData (snd r) = sensorData s \<and>
       \<not> received (snd r) \<and> \<not> syncFound (snd r) \<and> attached (snd r))"
proof -
  have r: "received ((setup592 power_on)\<lparr>received := True\<rparr>)" by simp
  note a = error_paths_leave_slots_unchanged
      [OF r, of "example_config (table_of [0xC34A])" 5000]
  note b = error_paths_leave_slots_unchanged
      [OF received_frame_ready [of damaged_bytes], of "example_config (table_of [0xC34A])" 5000]
  note c = error_paths_leave_slots_unchanged
      [OF received_frame_ready [of example_bytes], of "example_config (table_of [0x034A])" 5000]
  note a1 = a [THEN conjunct1, THEN mp, OF decode_silence]
  note b1 = b [THEN conjunct2, THEN conjunct1, THEN spec, THEN mp,
      OF conjI [OF decode_damaged example_checksums(4)]]
  note c1 = c [THEN conjunct2, THEN conjunct2, THEN conjunct1, THEN spec, THEN mp,
      OF conjI [OF decode_example conjI [OF example_checksums(1) table_0x034A_misses]]]
  note a2 = a [THEN conjunct2, THEN conjunct2, THEN conjunct2, THEN spec, THEN mp, OF a1]
  note b2 = b [THEN conjunct2, THEN conjunct2, THEN conjunct2, THEN spec, THEN mp, OF b1]
  note c2 = c [THEN conjunct2, THEN conjunct2, THEN conjunct2, THEN spec, THEN mp, OF c1]
  show ?thesis
    unfolding Let_def using a1 a2 b1 b2 c1 c2 by (intro conjI) (elim conjE, assumption)+
qed

section \<open>An edge outside the plausibility bounds\<close>

text \<open>
  Claim C7, as amended. For every edge handled while no frame is pending (the received
  flag is false) whose duration is above \<open>PULSE_LONG + 100\<close> or below \<open>PULSE_SHORT - 100\<close>,
  the handler clears the sync flag and the edge counter, then stores and counts the edge
  and looks for the sync train. When the handler returns the received flag is false and
  either the stored edge does not complete a sync train, the sync flag is cleared and the
  edge counter is 1, or it completes a sync train, the sync flag is set, the edge counter
  is 0 and the sync index is the index of the stored edge.
\<close>

theorem handler_after_out_of_bounds_edge:
  assumes "\<not> received s"
    and "pulse_out_of_bounds cfg (micros - lastTime s)"
  shows "\<not> received (handler_rf433 cfg pin micros s) \<and>
         ringIndex (handler_rf433 cfg pin micros s) = (ringIndex s + 1) mod RING_BUFFER_SIZE cfg \<and>
         pulseDurations (handler_rf433 cfg pin micros s) =
           (pulseDurations s)((ringIndex s + 1) mod RING_BUFFER_SIZE cfg := micros - lastTime s) \<and>
         (if isSync cfg (pulseDurations (handler_rf433 cfg pin micros s))
               (ringIndex (handler_rf433 cfg pin micros s))
          then syncFound (handler_rf433 cfg pin micros s) \<and>
               changeCount (handler_rf433 cfg pin micros s) = 0 \<and>
               syncIndex (handler_rf433 cfg pin micros s) = ringIndex (handler_rf433 cfg pin micros s)
          else \<not> syncFound (handler_rf433 cfg pin micros s) \<and>
               changeCount (handler_rf433 cfg pin micros s) = 1)"
  using assms by (rule handler_out_of_bounds)

text \<open>
  The theorem at an edge of 50 us after start-up, with data pulses of 400 and 200 us.
\<close>

theorem handler_after_out_of_bounds_edge_witness:
  "pulse_out_of_bounds (example_config (table_of [])) (50 - lastTime (setup592 power_on)) \<and>
   \<not> received (handler_rf433 (example_config (table_of [])) 0 50 (setup592 power_on)) \<and>
   \<not> syncFound (handler_rf433 (example_config (table_of [])) 0 50 (setup592 power_on)) \<and>
   changeCount (handler_rf433 (example_config (table_of [])) 0 50 (setup592 power_on)) = 1"
proof -
  have r: "\<not> received (setup592 power_on)"
    by (simp add: setup592_def power_on_def)
  have p: "pulse_out_of_bounds (example_config (table_of [])) (50 - lastTime (setup592 power_on))"
    by (simp add: pulse_out_of_bounds_def example_config_sel setup592_def power_on_def)
  note t = handler_after_out_of_bounds_edge [OF r p, of 0]
  have i: "ringIndex (handler_rf433 (example_config (table_of [])) 0 50 (setup592 power_on)) = Suc 0"
    using t by (simp add: example_config_sel setup592_def power_on_def)
  have d: "pulseDurations (handler_rf433 (example_config (table_of [])) 0 50 (setup592 power_on))
             = (\<lambda>_. 0)(Suc 0 := 50)"
    using t by (simp add: example_config_sel setup592_def power_on_def)
  show ?thesis
    using t p by (simp add: i d isSync_silence)
qed

text \<open>
  Claim C7 as stated fails twice. After an edge of 100000 us the edge counter is 1, not
  0, when the handler returns. And with data pulses of 400 and 200 us an edge of 600 us
  is outside the bounds; when the seven edges before it were 600 us as well, the handler
  returns with the sync flag set.
\<close>

theorem out_of_bounds_edge_counted_or_sync:
  "pulse_out_of_bounds (example_config (table_of [])) (100000 - lastTime (setup592 power_on)) \<and>
   changeCount (handler_rf433 (example_config (table_of [])) 0 100000 (setup592 power_on)) = 1 \<and>
   pulse_out_of_bounds (example_config (table_of []))
     (1600 - lastTime ((setup592 power_on)\<lparr>pulseDurations := (\<lambda>_. 600), lastTime := 1000\<rparr>)) \<and>
   syncFound (handler_rf433 (example_config (table_of [])) 0 1600
     ((setup592 power_on)\<lparr>pulseDurations := (\<lambda>_. 600), lastTime := 1000\<rparr>))"
proof -
  let ?cfg = "example_config (table_of [])"
  let ?s = "setup592 power_on"
  let ?s' = "(setup592 power_on)\<lparr>pulseDurations := (\<lambda>_. 600), lastTime := 1000\<rparr>"
  have r: "\<not> received ?s" "\<not> received ?s'"
    by (simp_all add: setup592_def power_on_def)
  have p: "pulse_out_of_bounds ?cfg (100000 - lastTime ?s)"
    by (simp add: pulse_out_of_bounds_def example_config_sel setup592_def power_on_def)
  have p': "pulse_out_of_bounds ?cfg (1600 - lastTime ?s')"
    by (simp add: pulse_out_of_bounds_def example_config_sel)
  note a = handler_out_of_bounds [OF r(1) p, of 0]
  note b = handler_out_of_bounds [OF r(2) p', of 0]
  have ia: "ringIndex (handler_rf433 ?cfg 0 100000 ?s) = Suc 0"
    and da: "pulseDurations (handler_rf433 ?cfg 0 100000 ?s) = (\<lambda>_. 0)(Suc 0 := 100000)"
    using a by (simp_all add: example_config_sel setup592_def power_on_def)
  have ib: "ringIndex (handler_rf433 ?cfg 0 1600 ?s') = Suc 0"
    and db: "pulseDurations (handler_rf433 ?cfg 0 1600 ?s') = (\<lambda>_. 600)(Suc 0 := 600)"
    using b by (simp_all add: example_config_sel setup592_def power_on_def)
  have "changeCount (handler_rf433 ?cfg 0 100000 ?s) = 1"
    using a by (simp add: ia da isSync_silence)
  moreover have "syncFound (handler_rf433 ?cfg 0 1600 ?s')"
    using b by (simp add: ib db isSync_train)
  ultimately show ?thesis using p p' by simp
qed

section \<open>Edges while a frame is pending\<close>

text \<open>
  Claim C8. Once the received flag is set, any sequence of executions of the edge handler
  leaves the ring buffer, the edge counter, the sync index, the sync flag and the received
  flag as they were; so the bytes that the poll context decodes are those of the
  durations captured before the flag was set. The flag is cleared only by
  \<^verbatim>\<open>loop592\<close>, after its last read of the ring buffer.
\<close>

theorem handler_ignores_edges_while_received:
  assumes "received s"
  shows "pulseDurations (fold (\<lambda>e. handler_rf433 cfg (fst e) (snd e)) edges s) = pulseDurations s \<and>
         changeCount (fold (\<lambda>e. handler_rf433 cfg (fst e) (snd e)) edges s) = changeCount s \<and>
         syncIndex (fold (\<lambda>e. handler_rf433 cfg (fst e) (snd e)) edges s) = syncIndex s \<and>
         syncFound (fold (\<lambda>e. handler_rf433 cfg (fst e) (snd e)) edges s) = syncFound s \<and>
         received (fold (\<lambda>e. handler_rf433 cfg (fst e) (snd e)) edges s) \<and>
         decode_bits cfg (pulseDurations (fold (\<lambda>e. handler_rf433 cfg (fst e) (snd e)) edges s))
             (syncIndex (fold (\<lambda>e. handler_rf433 cfg (fst e) (snd e)) edges s)) =
           decode_bits cfg (pulseDurations s) (syncIndex s)"
proof -
  from handler_fold_received [OF assms] obtain b where
    "fold (\<lambda>e. handler_rf433 cfg (fst e) (snd e)) edges s = s\<lparr>bitState := b\<rparr>" by blast
  then show ?thesis using assms by simp
qed

text \<open>
  The theorem at the pending frame of the end-to-end test and three further edges.
\<close>

theorem handler_ignores_edges_while_received_witness:
  "pulseDurations (fold (\<lambda>e. handler_rf433 (example_config (table_of [0xC34A])) (fst e) (snd e))
       [(1, 70000), (0, 70400), (1, 99000)] (frame_ready example_bytes)) = pulse_train example_bytes \<and>
   changeCount (fold (\<lambda>e. handler_rf433 (example_config (table_of [0xC34A])) (fst e) (snd e))
       [(1, 70000), (0, 70400), (1, 99000)] (frame_ready example_bytes)) = 112 \<and>
   syncIndex (fold (\<lambda>e. handler_rf433 (example_config (table_of [0xC34A])) (fst e) (snd e))
       [(1, 70000), (0, 70400), (1, 99000)] (frame_ready example_bytes)) = 0 \<and>
   syncFound (fold (\<lambda>e. handler_rf433 (example_config (table_of [0xC34A])) (fst e) (snd e))
       [(1, 70000), (0, 70400), (1, 99000)] (frame_ready example_bytes)) \<and>
   decode_bits (example_config (table_of [0xC34A]))
     (pulseDurations (fold (\<lambda>e. handler_rf433 (example_config (table_of [0xC34A])) (fst e) (snd e))
       [(1, 70000), (0, 70400), (1, 99000)] (frame_ready example_bytes)))
     (syncIndex (fold (\<lambda>e. handler_rf433 (example_config (table_of [0xC34A])) (fst e) (snd e))
       [(1, 70000), (0, 70400), (1, 99000)] (frame_ready example_bytes))) = Some example_bytes"
proof -
  have f: "pulseDurations (frame_ready example_bytes) = pulse_train example_bytes"
    "changeCount (frame_ready example_bytes) = 112"
    "syncIndex (frame_ready example_bytes) = 0"
    "syncFound (frame_ready example_bytes)"
    by (simp_all add: frame_ready_def)
  note t = handler_ignores_edges_while_received
    [OF received_frame_ready [of example_bytes], of "example_config (table_of [0xC34A])"
       "[(1, 70000), (0, 70400), (1, 99000)]"]
  show ?thesis
    using t f decode_example [of "table_of [0xC34A]"] by (simp only:)
qed

section \<open>Entries with the same address\<close>

text \<open>
  Claim C10. When the address of a frame that has passed the checksum is in entry \<open>i\<close> of
  the table and in no entry after \<open>i\<close>, the search returns \<open>i\<close>, whatever the entries
  before \<open>i\<close> hold: the frame is merged into slot \<open>i\<close>, and the id, temperature and
  timestamp of every other slot, an earlier slot with the same address included, stay as
  they were.
\<close>

theorem last_matching_entry_wins:
  assumes "received s"
    and "decode_bits cfg (pulseDurations s) (syncIndex s) = Some bs"
    and "checksum bs = crc (overlay bs)"
    and "i < numSensors"
    and "probeIdArray cfg i = hexID (overlay bs)"
    and "\<forall>j. i < j \<and> j < numSensors \<longrightarrow> probeIdArray cfg j \<noteq> hexID (overlay bs)"
  shows "find_id (probeIdArray cfg) (hexID (overlay bs)) = i \<and>
         fst (loop592 cfg ms s) = None \<and>
         sensorData (snd (loop592 cfg ms s)) =
           ageStaleData cfg (ms div 1000) (merge_frame cfg ms (overlay bs) i (sensorData s)) \<and>
         slot_id (sensorData (snd (loop592 cfg ms s)) i) = of_nat i + 1 \<and>
         temperature (sensorData (snd (loop592 cfg ms s)) i) = extract_temperature (overlay bs) \<and>
         timestamp (sensorData (snd (loop592 cfg ms s)) i) = ms div 1000 \<and>
         (\<forall>k. k \<noteq> i \<longrightarrow>
            slot_id (sensorData (snd (loop592 cfg ms s)) k) = slot_id (sensorData s k) \<and>
            temperature (sensorData (snd (loop592 cfg ms s)) k) = temperature (sensorData s k) \<and>
            timestamp (sensorData (snd (loop592 cfg ms s)) k) = timestamp (sensorData s k))"
proof -
  have f: "find_id (probeIdArray cfg) (hexID (overlay bs)) = i"
    using assms(4-6) by (rule find_id_last)
  have le: "i \<le> numSensors" using assms(4) by simp
  note a = loop592_accept_slots [OF assms(1-3) f le, of ms]
  show ?thesis
    unfolding a(2) using f a(1)
    by (simp add: ageStaleData_fields merge_frame_same merge_frame_other)
qed

text \<open>
  The theorem with the address of the end-to-end frame in entries 0 and 2: the frame
  goes to slot 2, and slot 0 keeps the temperature and timestamp of start-up.
\<close>

theorem last_matching_entry_wins_witness:
  "find_id (table_of [0xC34A, 0x1111, 0xC34A]) (hexID (overlay example_bytes)) = 2 \<and>
   fst (loop592 (example_config (table_of [0xC34A, 0x1111, 0xC34A])) 5000
          (frame_ready example_bytes)) = None \<and>
   temperature (sensorData (snd (loop592 (example_config (table_of [0xC34A, 0x1111, 0xC34A])) 5000
          (frame_ready example_bytes))) 2) = 16 \<and>
   timestamp (sensorData (snd (loop592 (example_config (table_of [0xC34A, 0x1111, 0xC34A])) 5000
          (frame_ready example_bytes))) 2) = 5 \<and>
   temperature (sensorData (snd (loop592 (example_config (table_of [0xC34A, 0x1111, 0xC34A])) 5000
          (frame_ready example_bytes))) 0) = 0 \<and>
   timestamp (sensorData (snd (loop592 (example_config (table_of [0xC34A, 0x1111, 0xC34A])) 5000
          (frame_ready example_bytes))) 0) = 0"
proof -
  let ?cfg = "example_config (table_of [0xC34A, 0x1111, 0xC34A])"
  have i: "(2::nat) < numSensors" by (simp add: numSensors_def)
  have m: "probeIdArray ?cfg 2 = hexID (overlay example_bytes)"
    by (simp add: example_hexIDs example_config_sel table_of_def)
  have l: "\<forall>j. 2 < j \<and> j < numSensors \<longrightarrow> probeIdArray ?cfg j \<noteq> hexID (overlay example_bytes)"
    by (simp add: example_hexIDs example_config_sel table_of_def)
  note t = last_matching_entry_wins
    [OF received_frame_ready decode_example example_checksums(1) i m l, of 5000]
  have x: "extract_temperature (overlay example_bytes) = 16"
    by (simp add: extract_temperature_def example_bytes_def overlay_7)
  have z: "temperature (sensorData (frame_ready example_bytes) 0) = 0"
    "timestamp (sensorData (frame_ready example_bytes) 0) = 0"
    by (simp_all add: setup_slot_0)
  have n: "(0::nat) \<noteq> 2" by simp
  note t0 = t [THEN conjunct2, THEN conjunct2, THEN conjunct2, THEN conjunct2, THEN conjunct2,
      THEN conjunct2, THEN spec, THEN mp, OF n]
  note t1 = t [THEN conjunct1]
  note t2 = t [THEN conjunct2, THEN conjunct1]
  note t5 = t [THEN conjunct2, THEN conjunct2, THEN conjunct2, THEN conjunct2, THEN conjunct1]
  note t6 = t [THEN conjunct2, THEN conjunct2, THEN conjunct2, THEN conjunct2, THEN conjunct2,
      THEN conjunct1]
  show ?thesis using t1 t2 t5 t6 t0 by (simp add: x z example_config_sel)
qed

end
